theory Spec2Isabelle
  imports
    Main
    "HOL-Library.Sublist"
    "HOL-Library.Char_ord"
    "HOL-Library.List_Lexorder"
begin

section \<open>Strings\<close>

text \<open>
  The pages compare strings with \<^verbatim>\<open>toLowerCase\<close>, \<^verbatim>\<open>includes\<close> and \<^verbatim>\<open>===\<close>.
  A string is modelled by the list of the bytes of its UTF-8 form, so that an ASCII
  character is one \<^typ>\<open>char\<close> and every other character is a lead byte followed by its
  continuation bytes (\<open>0x80\<close> to \<open>0xBF\<close>).
\<close>

definition ascii :: "string \<Rightarrow> bool" where
  "ascii s = list_all (\<lambda>b. of_char b < (0x80::nat)) s"

definition continuation :: "char \<Rightarrow> bool" where
  "continuation b = (0x80 \<le> (of_char b :: nat) \<and> (of_char b :: nat) < 0xC0)"

text \<open>The characters of a string: every byte that is no continuation byte starts a
  character, and the continuation bytes that follow belong to it.\<close>

fun utf8_chars :: "string \<Rightarrow> string list" where
  "utf8_chars [] = []"
| "utf8_chars (b # bs) =
     (case utf8_chars bs of
        [] \<Rightarrow> [[b]]
      | t # ts \<Rightarrow> if continuation (hd t) then (b # t) # ts else [b] # t # ts)"

text \<open>
  \<^verbatim>\<open>String.prototype.toLowerCase\<close> is the lowercase conversion of the Unicode standard,
  which is not a map of single characters: the capital sigma becomes the final small sigma
  when a cased letter precedes it (case-ignorable characters in between are skipped) and
  no cased letter follows it (again skipping case-ignorable characters), and the small
  sigma otherwise. The model holds the tables of the standard for these characters:
  \<^item> ASCII: the letters A to Z become a to z; the letters are cased; the apostrophe, the
    full stop, the colon, the circumflex and the grave accent are case-ignorable;
  \<^item> the Greek capital letters U+0391 to U+03A9 (bytes \<open>CE 91\<close> to \<open>CE A9\<close>, \<open>CE A2\<close> being
    unassigned) become the small letters U+03B1 to U+03C9 (bytes \<open>CE B1\<close> to \<open>CE BF\<close> and
    \<open>CF 80\<close> to \<open>CF 89\<close>); capital and small letters are cased;
  \<^item> the Kelvin sign U+212A (bytes \<open>E2 84 AA\<close>) is cased and becomes the letter k.
  Every other character is left as it is and taken as neither cased nor case-ignorable:
  the model is exact on the strings made of the characters above, and the general
  theorems about lowered text below are stated for ASCII strings.
\<close>

definition toLowerCase_char :: "char \<Rightarrow> char" where
  "toLowerCase_char c =
     (if CHR ''A'' \<le> c \<and> c \<le> CHR ''Z'' then char_of (of_char c + (32::nat)) else c)"

definition capital_sigma :: string where
  "capital_sigma = [CHR 0xCE, CHR 0xA3]"

definition small_sigma :: string where
  "small_sigma = [CHR 0xCF, CHR 0x83]"

definition final_sigma :: string where
  "final_sigma = [CHR 0xCF, CHR 0x82]"

definition kelvin_sign :: string where
  "kelvin_sign = [CHR 0xE2, CHR 0x84, CHR 0xAA]"

fun ascii_letter :: "string \<Rightarrow> bool" where
  "ascii_letter [c] = (CHR ''A'' \<le> c \<and> c \<le> CHR ''Z'' \<or> CHR ''a'' \<le> c \<and> c \<le> CHR ''z'')"
| "ascii_letter t = False"

fun greek_capital :: "string \<Rightarrow> bool" where
  "greek_capital [l, d] = (l = CHR 0xCE \<and> CHR 0x91 \<le> d \<and> d \<le> CHR 0xA9 \<and> d \<noteq> CHR 0xA2)"
| "greek_capital t = False"

fun greek_small :: "string \<Rightarrow> bool" where
  "greek_small [l, d] = (l = CHR 0xCE \<and> CHR 0xB1 \<le> d \<and> d \<le> CHR 0xBF
                         \<or> l = CHR 0xCF \<and> CHR 0x80 \<le> d \<and> d \<le> CHR 0x89)"
| "greek_small t = False"

definition cased :: "string \<Rightarrow> bool" where
  "cased t = (ascii_letter t \<or> greek_capital t \<or> greek_small t \<or> t = kelvin_sign)"

definition case_ignorable :: "string \<Rightarrow> bool" where
  "case_ignorable t = (t \<in> set [[CHR 0x27], ''.'', '':'', ''^'', ''`''])"

text \<open>The lowercase form of one character, the capital sigma apart. A Greek capital
  letter moves up by \<open>0x20\<close> code points, which in UTF-8 is the same lead byte for
  U+0391 to U+039F and the lead byte \<open>CF\<close> for U+03A0 to U+03A9.\<close>

fun lower_char :: "string \<Rightarrow> string" where
  "lower_char [c] = [toLowerCase_char c]"
| "lower_char [l, d] =
     (if greek_capital [l, d]
      then (if d \<le> CHR 0x9F then [CHR 0xCE, char_of (of_char d + (0x20::nat))]
            else [CHR 0xCF, char_of (of_char d - (0x20::nat))])
      else [l, d])"
| "lower_char t = (if t = kelvin_sign then ''k'' else t)"

fun followed_by_cased :: "string list \<Rightarrow> bool" where
  "followed_by_cased [] = False"
| "followed_by_cased (t # ts) = (if case_ignorable t then followed_by_cased ts else cased t)"

text \<open>The conversion of a list of characters; \<open>after_cased\<close> says that a cased letter and
  then only case-ignorable characters precede.\<close>

fun lower_chars :: "bool \<Rightarrow> string list \<Rightarrow> string list" where
  "lower_chars after_cased [] = []"
| "lower_chars after_cased (t # ts) =
     (if t = capital_sigma
      then (if after_cased \<and> \<not> followed_by_cased ts then final_sigma else small_sigma)
      else lower_char t)
     # lower_chars (if case_ignorable t then after_cased else cased t) ts"

definition toLowerCase :: "string \<Rightarrow> string" where
  "toLowerCase s = concat (lower_chars False (utf8_chars s))"

text \<open>\<^verbatim>\<open>s.startsWith(t)\<close> and \<^verbatim>\<open>s.includes(t)\<close>: \<open>t\<close> occurs in \<open>s\<close> at position 0,
  respectively at some position.\<close>

fun startsWith :: "string \<Rightarrow> string \<Rightarrow> bool" where
  "startsWith s [] = True"
| "startsWith [] (y # ys) = False"
| "startsWith (x # xs) (y # ys) = (x = y \<and> startsWith xs ys)"

fun includes_str :: "string \<Rightarrow> string \<Rightarrow> bool" where
  "includes_str [] t = (t = [])"
| "includes_str (x # xs) t = (startsWith (x # xs) t \<or> includes_str xs t)"

text \<open>The wording of the specification: the query is a case-insensitive substring of the
  text when some contiguous segment of the text equals the query up to the case of its
  letters. Two characters are the same letter up to case when they are equal or are the
  capital and the small form of one letter of the alphabet; this is written from the
  alphabet, not from the conversion above.\<close>

definition letter_cases :: "(char \<times> char) list" where
  "letter_cases = zip ''ABCDEFGHIJKLMNOPQRSTUVWXYZ'' ''abcdefghijklmnopqrstuvwxyz''"

definition same_letter :: "char \<Rightarrow> char \<Rightarrow> bool" where
  "same_letter c d = (c = d \<or> (c, d) \<in> set letter_cases \<or> (d, c) \<in> set letter_cases)"

definition ci_substring :: "string \<Rightarrow> string \<Rightarrow> bool" where
  "ci_substring q t = (\<exists>pre mid suf. t = pre @ mid @ suf \<and> list_all2 same_letter mid q)"

section \<open>Resource library page: src/app/resources/page.tsx\<close>

record resource =
  id_r :: int
  title :: string
  subject :: string
  type_r :: string
  size_r :: string
  color :: string
  textColor :: string

definition allResources :: "resource list" where
  "allResources =
    [\<lparr>id_r = 1, title = ''Calculus 101 Finals'', subject = ''Mathematics'', type_r = ''PDF'',
      size_r = ''2.4 MB'', color = ''bg-red-50 dark:bg-red-900/20'',
      textColor = ''text-red-500 dark:text-red-400''\<rparr>,
     \<lparr>id_r = 2, title = ''Data Structures Notes'', subject = ''Comp. Sci'', type_r = ''DOC'',
      size_r = ''1.1 MB'', color = ''bg-blue-50 dark:bg-blue-900/20'',
      textColor = ''text-blue-500 dark:text-blue-400''\<rparr>,
     \<lparr>id_r = 3, title = ''Physics Lab Results'', subject = ''Physics'', type_r = ''XLS'',
      size_r = ''800 KB'', color = ''bg-green-50 dark:bg-green-900/20'',
      textColor = ''text-green-600 dark:text-green-400''\<rparr>,
     \<lparr>id_r = 4, title = ''Linear Algebra Intro'', subject = ''Mathematics'', type_r = ''PDF'',
      size_r = ''3.2 MB'', color = ''bg-red-50 dark:bg-red-900/20'',
      textColor = ''text-red-500 dark:text-red-400''\<rparr>,
     \<lparr>id_r = 5, title = ''React.js Crash Course'', subject = ''Comp. Sci'', type_r = ''PDF'',
      size_r = ''5.5 MB'', color = ''bg-blue-50 dark:bg-blue-900/20'',
      textColor = ''text-blue-500 dark:text-blue-400''\<rparr>]"

definition categories :: "string list" where
  "categories = [''All'', ''Mathematics'', ''Comp. Sci'', ''Physics'']"

text \<open>The two local constants of the filter callback, and the filter itself. The page
  filters the constant \<open>allResources\<close> with the state \<open>searchQuery\<close>, \<open>selectedCategory\<close>;
  the list is a parameter here so that the filter is stated for every list.\<close>

definition matchesSearch :: "string \<Rightarrow> resource \<Rightarrow> bool" where
  "matchesSearch searchQuery resource =
     includes_str (toLowerCase (title resource)) (toLowerCase searchQuery)"

definition matchesCategory :: "string \<Rightarrow> resource \<Rightarrow> bool" where
  "matchesCategory selectedCategory resource =
     (selectedCategory = ''All'' \<or> subject resource = selectedCategory)"

definition filteredResources :: "resource list \<Rightarrow> string \<Rightarrow> string \<Rightarrow> resource list" where
  "filteredResources rs searchQuery selectedCategory =
     filter (\<lambda>resource. matchesSearch searchQuery resource
                       \<and> matchesCategory selectedCategory resource) rs"

section \<open>Chat inbox page: src/app/chat/page.tsx\<close>

record chat =
  id_c :: string
  name :: string
  message :: string
  time :: string
  unread :: nat
  color :: string

definition chats :: "chat list" where
  "chats =
    [\<lparr>id_c = ''nomsa'', chat.name = ''Nomsa Dlamini'',
      message = ''Did you get the answer for Q3?'', time = ''10:30 AM'', unread = 2,
      chat.color = ''bg-blue-400''\<rparr>,
     \<lparr>id_c = ''studygroup'', chat.name = ''Study Group A'',
      message = ''Thabo: I'' @ [CHR 0x27] @ ''ll bring the past papers.'', time = ''Yesterday'',
      unread = 0, chat.color = ''bg-purple-400''\<rparr>,
     \<lparr>id_c = ''khotso'', chat.name = ''Khotso Mokoena'',
      message = ''Thanks man, really appreciate it!'', time = ''Mon'', unread = 0,
      chat.color = ''bg-pink-400''\<rparr>]"

definition filteredChats :: "chat list \<Rightarrow> string \<Rightarrow> chat list" where
  "filteredChats cs query =
     filter (\<lambda>chat. includes_str (toLowerCase (chat.name chat)) (toLowerCase query)) cs"

section \<open>Find peers page: src/app/chat/new/page.tsx\<close>

record student =
  name :: string
  uni :: string
  year :: string
  course :: string
  status :: string

definition mockStudents :: "student list" where
  "mockStudents =
    [\<lparr>student.name = ''Sipho M.'', uni = ''ukzn'', year = ''3rd Year'', course = ''Comp Sci'',
      status = ''Looking for study buddy''\<rparr>,
     \<lparr>student.name = ''Thando Z.'', uni = ''ukzn'', year = ''1st Year'',
      course = ''Mathematics'', status = ''Need help with Calc''\<rparr>,
     \<lparr>student.name = ''Kyle V.'', uni = ''uct'', year = ''2nd Year'', course = ''Economics'',
      status = ''Exam prep group?''\<rparr>,
     \<lparr>student.name = ''Lerato K.'', uni = ''wits'', year = ''Honours'', course = ''Physics'',
      status = ''Available to tutor''\<rparr>,
     \<lparr>student.name = ''Jason D.'', uni = ''up'', year = ''1st Year'', course = ''Informatics'',
      status = ''Study Group A''\<rparr>]"

text \<open>\<open>selectedUni\<close> has type \<^verbatim>\<open>string | null\<close>; \<^verbatim>\<open>selectedUni && ...\<close> tests its
  truthiness, which is false for \<^verbatim>\<open>null\<close> and for the empty string.\<close>

fun truthy :: "string option \<Rightarrow> bool" where
  "truthy None = False"
| "truthy (Some s) = (s \<noteq> [])"

text \<open>The filter callback, with its two early returns in the order of the source.\<close>

definition keepStudent :: "string option \<Rightarrow> string \<Rightarrow> student \<Rightarrow> bool" where
  "keepStudent selectedUni selectedFilter s =
     (if truthy selectedUni \<and> Some (uni s) \<noteq> selectedUni then False
      else if selectedFilter \<noteq> ''All'' \<and> year s \<noteq> selectedFilter then False
      else True)"

definition filteredStudents :: "student list \<Rightarrow> string option \<Rightarrow> string \<Rightarrow> student list" where
  "filteredStudents ss selectedUni selectedFilter =
     filter (keepStudent selectedUni selectedFilter) ss"

section \<open>Upload page: src/app/resources/upload/page.tsx\<close>

text \<open>A browser \<^verbatim>\<open>File\<close>: its name, its size in bytes and its MIME type.\<close>

record file_js =
  file_name :: string
  file_size :: nat
  file_type :: string

text \<open>The two \<^verbatim>\<open>alert\<close> dialogs of the repository, both headed "PORTFOLIO DEMO MODE":
  the one of the upload page ("This feature is simulated ... No data has been sent.") and
  the one of the uploads dashboard ("Deletion Simulated ...").\<close>

datatype dialog = UploadDemoAlert | DeleteDemoAlert

text \<open>The component state \<open>file\<close> (here \<open>file_u\<close>), \<open>isUploading\<close>, and the dialogs shown
  so far.\<close>

record upload_page =
  file_u :: "file_js option"
  isUploading :: bool
  upload_alerts :: "dialog list"

text \<open>The hint under the drop zone, the only place where the page names a size limit.\<close>

definition dropZoneHint :: string where
  "dropZoneHint = ''PDF, DOCX, JPG (Max 10MB)''"

text \<open>\<open>e.target.files\<close> is a \<^verbatim>\<open>FileList\<close> or \<^verbatim>\<open>null\<close>.\<close>

definition handleFileChange :: "file_js list option \<Rightarrow> upload_page \<Rightarrow> upload_page" where
  "handleFileChange files st =
     (case files of
        Some (f # _) \<Rightarrow> st\<lparr>file_u := Some f\<rparr>
      | _ \<Rightarrow> st)"

text \<open>The submit button is disabled while no file is chosen or an upload is running.\<close>

definition submitDisabled :: "upload_page \<Rightarrow> bool" where
  "submitDisabled st = (file_u st = None \<or> isUploading st)"

text \<open>\<open>handleSubmit\<close> turns the spinner on and starts a timer of two seconds; the timer's
  callback turns the spinner off and shows the alert. Neither reads the file.\<close>

definition handleSubmit :: "upload_page \<Rightarrow> upload_page" where
  "handleSubmit st = st\<lparr>isUploading := True\<rparr>"

definition uploadTimeout :: "upload_page \<Rightarrow> upload_page" where
  "uploadTimeout st = st\<lparr>isUploading := False, upload_alerts := upload_alerts st @ [UploadDemoAlert]\<rparr>"

definition submitAndWait :: "upload_page \<Rightarrow> upload_page" where
  "submitAndWait st = uploadTimeout (handleSubmit st)"

section \<open>Manage uploads page: src/app/profile/uploads/page.tsx\<close>

record upload =
  id_u :: int
  name :: string
  type_u :: string
  size_u :: string
  date :: string
  autoDelete :: string

text \<open>The component state \<open>uploads\<close>, \<open>deletingId\<close>, the ids captured by the timers that
  are still running, and the dialogs shown so far.\<close>

record uploads_page =
  uploads :: "upload list"
  deletingId :: "int option"
  timers :: "int list"
  delete_alerts :: "dialog list"

definition initialUploads :: "upload list" where
  "initialUploads =
    [\<lparr>id_u = 1, upload.name = ''Calculus 101 Finals'', type_u = ''PDF'', size_u = ''2.4 MB'',
      date = ''Oct 12, 2025'', autoDelete = ''Never''\<rparr>,
     \<lparr>id_u = 2, upload.name = ''Physics Lab Results'', type_u = ''XLS'', size_u = ''800 KB'',
      date = ''Oct 15, 2025'', autoDelete = ''Dec 31, 2025''\<rparr>,
     \<lparr>id_u = 3, upload.name = ''Project Proposal v2'', type_u = ''DOC'', size_u = ''1.1 MB'',
      date = ''Oct 20, 2025'', autoDelete = ''Never''\<rparr>]"

definition initialUploadsPage :: uploads_page where
  "initialUploadsPage =
     \<lparr>uploads = initialUploads, deletingId = None, timers = [], delete_alerts = []\<rparr>"

text \<open>\<open>handleDelete\<close>: the answer of \<^verbatim>\<open>confirm\<close> is the parameter \<open>confirmed\<close>. When it is
  declined the handler returns at once; otherwise it records the id and starts a timer of
  1.5 seconds that remembers the id.\<close>

definition handleDelete :: "bool \<Rightarrow> int \<Rightarrow> uploads_page \<Rightarrow> uploads_page" where
  "handleDelete confirmed i st =
     (if \<not> confirmed then st
      else st\<lparr>deletingId := Some i, timers := timers st @ [i]\<rparr>)"

text \<open>The timer's callback: the alert, then the functional update
  \<^verbatim>\<open>setUploads(prev => prev.filter(item => item.id !== id))\<close>, then the reset of
  \<open>deletingId\<close>.\<close>

definition deleteTimeout :: "int \<Rightarrow> uploads_page \<Rightarrow> uploads_page" where
  "deleteTimeout i st =
     st\<lparr>uploads := filter (\<lambda>item. id_u item \<noteq> i) (uploads st),
        deletingId := None,
        timers := remove1 i (timers st),
        delete_alerts := delete_alerts st @ [DeleteDemoAlert]\<rparr>"

definition confirmedDelete :: "int \<Rightarrow> uploads_page \<Rightarrow> uploads_page" where
  "confirmedDelete i st = deleteTimeout i (handleDelete True i st)"

section \<open>Property lookup on an object literal\<close>

text \<open>
  The mock databases of the two detail pages are object literals read with \<^verbatim>\<open>obj[key]\<close>.
  Such a read finds the object's own property of that name, else the member of that name
  that every object literal inherits from \<^verbatim>\<open>Object.prototype\<close>, else \<^verbatim>\<open>undefined\<close>.
  An inherited member is a function (for \<^verbatim>\<open>__proto__\<close> the prototype object itself):
  it is truthy, it is none of the records of the database and it is not an array.
\<close>

datatype 'a js_value = Undefined | Own 'a | Inherited string

definition objectPrototypeKeys :: "string list" where
  "objectPrototypeKeys =
     [''constructor'', ''__proto__'', ''hasOwnProperty'', ''isPrototypeOf'',
      ''propertyIsEnumerable'', ''toLocaleString'', ''toString'', ''valueOf'',
      ''__defineGetter__'', ''__defineSetter__'', ''__lookupGetter__'', ''__lookupSetter__'']"

definition getProp :: "(string \<times> 'a) list \<Rightarrow> string \<Rightarrow> 'a js_value" where
  "getProp obj k =
     (case map_of obj k of
        Some v \<Rightarrow> Own v
      | None \<Rightarrow> if k \<in> set objectPrototypeKeys then Inherited k else Undefined)"

text \<open>\<^verbatim>\<open>a || b\<close>: \<open>a\<close> when it is truthy, else \<open>b\<close>. Records, arrays (also the empty one)
  and functions are truthy.\<close>

fun js_or :: "'a js_value \<Rightarrow> 'a js_value \<Rightarrow> 'a js_value" where
  "js_or Undefined b = b"
| "js_or a b = a"

datatype js_error = TypeError

section \<open>Chat detail page: src/app/chat/[id]/page.tsx\<close>

record chat_user =
  name :: string
  initials :: string
  status :: string
  color :: string

record msg =
  text_m :: string
  time :: string
  isMe :: bool
  senderName :: "string option"

definition nomsa_user :: chat_user where
  "nomsa_user = \<lparr>chat_user.name = ''Nomsa Dlamini'', initials = ''ND'',
                  chat_user.status = ''Online'', chat_user.color = ''bg-blue-400''\<rparr>"

definition chatData :: "(string \<times> chat_user) list" where
  "chatData =
    [(''nomsa'', nomsa_user),
     (''khotso'', \<lparr>chat_user.name = ''Khotso Mokoena'', initials = ''KM'',
                   chat_user.status = ''Last seen 2h ago'', chat_user.color = ''bg-pink-400''\<rparr>),
     (''studygroup'', \<lparr>chat_user.name = ''Study Group A'', initials = ''SG'',
                       chat_user.status = ''3 Online'', chat_user.color = ''bg-purple-400''\<rparr>)]"

text \<open>Characters of the source beyond ASCII are written as the bytes of the source file.\<close>

definition messagesDB :: "(string \<times> msg list) list" where
  "messagesDB =
    [(''nomsa'',
      [\<lparr>text_m = ''Hey Thabo! ''
           @ [CHR 0xC3, CHR 0xB0, CHR 0xC5, CHR 0xB8, CHR 0xE2, CHR 0x80, CHR 0x98,
              CHR 0xE2, CHR 0x80, CHR 0xB9]
           @ '' Are you coming online for the study group session later?'',
         msg.time = ''10:30 AM'', isMe = False, senderName = None\<rparr>,
       \<lparr>text_m = ''Yes! I'' @ [CHR 0x27] @ ''ll be there.'', msg.time = ''10:32 AM'',
         isMe = True, senderName = None\<rparr>,
       \<lparr>text_m = ''Did you get the answer for Q3?'', msg.time = ''10:33 AM'', isMe = False,
         senderName = None\<rparr>]),
     (''khotso'',
      [\<lparr>text_m = ''Yo, are you done with the CS assignment?'', msg.time = ''Mon'',
         isMe = True, senderName = None\<rparr>,
       \<lparr>text_m = ''Yeah just submitted it now.'', msg.time = ''Mon'', isMe = False,
         senderName = None\<rparr>,
       \<lparr>text_m = ''Thanks man, really appreciate the help!'', msg.time = ''Mon'',
         isMe = False, senderName = None\<rparr>]),
     (''studygroup'',
      [\<lparr>text_m = ''Guys, are we meeting at the library or online?'',
         msg.time = ''Yesterday'', isMe = False, senderName = Some ''Sipho''\<rparr>,
       \<lparr>text_m = ''I think online is better today.'', msg.time = ''Yesterday'',
         isMe = False, senderName = Some ''Nomsa''\<rparr>,
       \<lparr>text_m = ''Cool. I'' @ [CHR 0x27] @ ''ll bring the past papers.'',
         msg.time = ''Yesterday'', isMe = True, senderName = None\<rparr>])]"

text \<open>The constants \<open>chatId\<close>, \<open>user\<close> and \<open>messages\<close> of \<open>ChatDetail\<close>.\<close>

definition chatId :: "string \<Rightarrow> string" where
  "chatId i = toLowerCase i"

definition chatUser :: "string \<Rightarrow> chat_user js_value" where
  "chatUser i = js_or (getProp chatData (chatId i)) (getProp chatData ''nomsa'')"

definition chatMessages :: "string \<Rightarrow> msg list js_value" where
  "chatMessages i = js_or (getProp messagesDB (chatId i)) (Own [])"

text \<open>\<^verbatim>\<open>messages.map(...)\<close> renders one bubble for each message of an array; on a value
  that has no \<^verbatim>\<open>map\<close> method the call raises a \<^verbatim>\<open>TypeError\<close>.\<close>

definition messageBubbles :: "string \<Rightarrow> js_error + msg list" where
  "messageBubbles i =
     (case chatMessages i of
        Own ms \<Rightarrow> Inr ms
      | _ \<Rightarrow> Inl TypeError)"

section \<open>Profile detail page: src/app/chat/profile/[id]/page.tsx\<close>

record member =
  name :: string
  role :: string
  you :: bool

record user_profile =
  name :: string
  initials :: string
  color :: string
  role :: string
  bio :: string
  commonGroups :: "string list"
  email :: string

record group_profile =
  name :: string
  initials :: string
  color :: string
  description :: string
  members :: "member list"

text \<open>The field \<open>type\<close> of a profile, \<^verbatim>\<open>"user"\<close> or \<^verbatim>\<open>"group"\<close>, is the constructor.\<close>

datatype profile = UserProfile user_profile | GroupProfile group_profile

definition nomsa_profile :: profile where
  "nomsa_profile = UserProfile
     \<lparr>user_profile.name = ''Nomsa Dlamini'', user_profile.initials = ''ND'',
      user_profile.color = ''bg-blue-400'',
      user_profile.role = ''Mathematics '' @ [CHR 0xE2, CHR 0x80, CHR 0xA2] @ '' 3rd Year'',
      bio = ''Math major who loves calculus and statistics. Always down for a study session at the library!'',
      commonGroups = [''Study Group A'', ''Calc 101''],
      email = ''nomsa.d@student.university.ac.za''\<rparr>"

definition profiles :: "(string \<times> profile) list" where
  "profiles =
    [(''nomsa'', nomsa_profile),
     (''khotso'', UserProfile
       \<lparr>user_profile.name = ''Khotso Mokoena'', user_profile.initials = ''KM'',
        user_profile.color = ''bg-pink-400'',
        user_profile.role = ''Computer Science '' @ [CHR 0xE2, CHR 0x80, CHR 0xA2] @ '' 2nd Year'',
        bio = ''Coding is life. Currently struggling with Algorithms. Let''
              @ [CHR 0x27] @ ''s pair program!'',
        commonGroups = [''CS 2024'', ''Hackathon Team''],
        email = ''khotso.m@student.university.ac.za''\<rparr>),
     (''studygroup'', GroupProfile
       \<lparr>group_profile.name = ''Study Group A'', group_profile.initials = ''SG'',
        group_profile.color = ''bg-purple-400'',
        description = ''Official study group for Calculus 101. We meet every Tuesday and Thursday at the main library.'',
        members =
          [\<lparr>member.name = ''Thabo Nkosi'', member.role = ''Admin'', you = True\<rparr>,
           \<lparr>member.name = ''Nomsa Dlamini'', member.role = ''Member'', you = False\<rparr>,
           \<lparr>member.name = ''Khotso Mokoena'', member.role = ''Member'', you = False\<rparr>,
           \<lparr>member.name = ''Sipho Zulu'', member.role = ''Member'', you = False\<rparr>]\<rparr>)]"

text \<open>The constant \<open>profile\<close> of \<open>ChatProfilePage\<close>.\<close>

definition chatProfile :: "string \<Rightarrow> profile js_value" where
  "chatProfile i = js_or (getProp profiles (toLowerCase i)) (getProp profiles ''nomsa'')"

text \<open>The page reads \<open>profile.type\<close> and renders, with \<^verbatim>\<open>.map\<close>, the members of a group
  or else the common groups of a user. On an inherited member \<open>profile.type\<close> is
  \<^verbatim>\<open>undefined\<close>, the user layout is chosen, \<open>profile.commonGroups\<close> is \<^verbatim>\<open>undefined\<close> and
  the call of \<^verbatim>\<open>.map\<close> on it raises a \<^verbatim>\<open>TypeError\<close>.\<close>

definition profileList :: "string \<Rightarrow> js_error + string list" where
  "profileList i =
     (case chatProfile i of
        Own (GroupProfile g) \<Rightarrow> Inr (map member.name (members g))
      | Own (UserProfile p) \<Rightarrow> Inr (commonGroups p)
      | _ \<Rightarrow> Inl TypeError)"

section \<open>Facts about the string operations\<close>

lemma startsWith_iff_prefix: "startsWith s t \<longleftrightarrow> prefix t s"
  by (induction s t rule: startsWith.induct) auto

lemma includes_str_iff_sublist: "includes_str s t \<longleftrightarrow> sublist t s"
proof (induction s)
  case Nil
  show ?case by simp
next
  case (Cons x xs)
  show ?case
    by (simp only: includes_str.simps Cons.IH startsWith_iff_prefix sublist_Cons_right)
qed

text \<open>On ASCII strings the conversion is the map of the letters A to Z to a to z.\<close>

lemma toLowerCase_empty: "toLowerCase [] = []"
  by (simp add: toLowerCase_def)

lemma utf8_chars_ascii: "ascii s \<Longrightarrow> utf8_chars s = map (\<lambda>b. [b]) s"
  by (induction s) (auto simp: ascii_def continuation_def split: list.splits)

lemma lower_chars_ascii:
  "ascii s \<Longrightarrow> lower_chars p (map (\<lambda>b. [b]) s) = map (\<lambda>b. [toLowerCase_char b]) s"
  by (induction s arbitrary: p) (auto simp: ascii_def capital_sigma_def)

lemma toLowerCase_ascii: "ascii s \<Longrightarrow> toLowerCase s = map toLowerCase_char s"
  by (simp add: toLowerCase_def utf8_chars_ascii lower_chars_ascii concat_map_singleton)

lemma ascii_append: "ascii (xs @ ys) \<longleftrightarrow> ascii xs \<and> ascii ys"
  by (simp add: ascii_def)

text \<open>The letters that are the same up to case are those that the conversion of ASCII
  identifies.\<close>

lemma letter_cases_iff:
  "(c, d) \<in> set letter_cases \<longleftrightarrow> CHR ''A'' \<le> c \<and> c \<le> CHR ''Z'' \<and> d = toLowerCase_char c"
proof -
  have "\<forall>c. map_of letter_cases c
          = (if CHR ''A'' \<le> c \<and> c \<le> CHR ''Z'' then Some (toLowerCase_char c) else None)"
    by code_simp
  moreover have "distinct (map fst letter_cases)"
    by code_simp
  ultimately show ?thesis
    by (metis map_of_eq_Some_iff option.distinct(1) option.inject)
qed

lemma toLowerCase_char_not_upper:
  "\<not> (CHR ''A'' \<le> toLowerCase_char c \<and> toLowerCase_char c \<le> CHR ''Z'')"
  by (auto simp: toLowerCase_char_def less_eq_char_def)

lemma toLowerCase_char_inj_upper:
  assumes "CHR ''A'' \<le> c" "c \<le> CHR ''Z''" "CHR ''A'' \<le> d" "d \<le> CHR ''Z''"
    and "toLowerCase_char c = toLowerCase_char d"
  shows "c = d"
proof -
  from assms have "of_char (char_of (of_char c + (32::nat)))
      = (of_char (char_of (of_char d + (32::nat))) :: nat)"
    by (simp add: toLowerCase_char_def)
  with assms(1-4) have "(of_char c :: nat) = of_char d"
    by (simp add: less_eq_char_def)
  then show ?thesis by simp
qed

lemma same_letter_iff: "same_letter c d \<longleftrightarrow> toLowerCase_char c = toLowerCase_char d"
proof -
  have id: "toLowerCase_char x = x" if "\<not> (CHR ''A'' \<le> x \<and> x \<le> CHR ''Z'')" for x
    using that by (auto simp: toLowerCase_char_def)
  show ?thesis
    unfolding same_letter_def letter_cases_iff
    using toLowerCase_char_not_upper [of c] toLowerCase_char_not_upper [of d]
      toLowerCase_char_inj_upper [of c d] id [of c] id [of d]
    by metis
qed

lemma same_letter_lists:
  "list_all2 same_letter mid q \<longleftrightarrow> map toLowerCase_char mid = map toLowerCase_char q"
  by (induction mid arbitrary: q) (auto simp: same_letter_iff list_all2_Cons1 map_eq_Cons_conv)

lemma includes_map_iff_ci_substring:
  "includes_str (map toLowerCase_char t) (map toLowerCase_char q) \<longleftrightarrow> ci_substring q t"
proof
  assume "includes_str (map toLowerCase_char t) (map toLowerCase_char q)"
  then obtain ps ss where eq: "map toLowerCase_char t = ps @ map toLowerCase_char q @ ss"
    by (auto simp: includes_str_iff_sublist sublist_def)
  then obtain pre rest where t: "t = pre @ rest"
    and rest: "map toLowerCase_char q @ ss = map toLowerCase_char rest"
    by (auto simp: map_eq_append_conv)
  from rest obtain mid suf where "rest = mid @ suf"
    and "map toLowerCase_char q = map toLowerCase_char mid"
    by (auto simp: append_eq_map_conv)
  with t show "ci_substring q t"
    unfolding ci_substring_def same_letter_lists by auto
next
  assume "ci_substring q t"
  then obtain pre mid suf where "t = pre @ mid @ suf"
    and "map toLowerCase_char mid = map toLowerCase_char q"
    unfolding ci_substring_def same_letter_lists by auto
  then have "map toLowerCase_char t
      = map toLowerCase_char pre @ map toLowerCase_char q @ map toLowerCase_char suf"
    by simp
  then show "includes_str (map toLowerCase_char t) (map toLowerCase_char q)"
    by (auto simp: includes_str_iff_sublist sublist_def)
qed

text \<open>For ASCII strings the comparison through \<open>toLowerCase\<close> and \<open>includes\<close> is the
  case-insensitive substring test of the specification.\<close>

lemma includes_lower_iff_ci_substring:
  "ascii t \<Longrightarrow> ascii q \<Longrightarrow>
     includes_str (toLowerCase t) (toLowerCase q) \<longleftrightarrow> ci_substring q t"
  by (simp add: toLowerCase_ascii includes_map_iff_ci_substring)

text \<open>A query that occurs in the text as it is, is a case-insensitive substring of it.\<close>

lemma includes_imp_ci_substring: "includes_str t q \<Longrightarrow> ci_substring q t"
proof -
  assume "includes_str t q"
  then obtain ps ss where "t = ps @ q @ ss"
    by (auto simp: includes_str_iff_sublist sublist_def)
  moreover have "list_all2 same_letter q q"
    by (simp add: list_all2_same same_letter_def)
  ultimately show ?thesis
    unfolding ci_substring_def by blast
qed

lemma includes_str_empty: "includes_str s []"
  by (simp add: includes_str_iff_sublist)

lemma matchesSearch_iff:
  "ascii q \<Longrightarrow> ascii (title r) \<Longrightarrow> matchesSearch q r \<longleftrightarrow> ci_substring q (title r)"
  by (simp add: matchesSearch_def includes_lower_iff_ci_substring)

lemma matchesCategory_iff: "matchesCategory c r \<longleftrightarrow> (c \<noteq> ''All'' \<longrightarrow> subject r = c)"
  by (auto simp: matchesCategory_def)

lemma keepStudent_iff:
  "keepStudent u f s \<longleftrightarrow> (truthy u \<longrightarrow> Some (uni s) = u) \<and> (f \<noteq> ''All'' \<longrightarrow> year s = f)"
  by (auto simp: keepStudent_def)

section \<open>The concrete scenario\<close>

text \<open>
  Claim C5. With the library of the page, which holds the resource titled
  "Calculus 101 Finals" of subject "Mathematics", the search for "calc" with no category
  chosen (the chip "All") returns that resource, and the search for "calc" in the
  category "Physics" returns nothing.
\<close>

theorem calc_scenario:
  "filteredResources allResources ''calc'' ''All'' = [allResources ! 0]
   \<and> title (allResources ! 0) = ''Calculus 101 Finals''
   \<and> subject (allResources ! 0) = ''Mathematics''
   \<and> filteredResources allResources ''calc'' ''Physics'' = []"
  by code_simp

section \<open>Search and filtering\<close>

text \<open>
  Claim C1, as stated, asks that no item that the search leaves out satisfy all the
  supplied predicates, for every query. The page lowers the title and the query each on
  its own, and the capital sigma is lowered by its position: in the title \<open>CE A6 CE A5 CE
  A3 CE 99 CE 9A CE 97\<close> (the Greek word for physics in capitals) it stands before a
  letter and becomes the small sigma, in the query \<open>CE A6 CE A5 CE A3\<close> (its first three
  letters) it stands last and becomes the final sigma. So the resource is left out,
  although the query occurs in its title as it is and no category is chosen.
\<close>

theorem final_sigma_search_incomplete:
  "toLowerCase [CHR 0xCE, CHR 0xA6, CHR 0xCE, CHR 0xA5, CHR 0xCE, CHR 0xA3, CHR 0xCE, CHR 0x99,
        CHR 0xCE, CHR 0x9A, CHR 0xCE, CHR 0x97]
     = [CHR 0xCF, CHR 0x86, CHR 0xCF, CHR 0x85, CHR 0xCF, CHR 0x83, CHR 0xCE, CHR 0xB9,
        CHR 0xCE, CHR 0xBA, CHR 0xCE, CHR 0xB7]
   \<and> toLowerCase [CHR 0xCE, CHR 0xA6, CHR 0xCE, CHR 0xA5, CHR 0xCE, CHR 0xA3]
     = [CHR 0xCF, CHR 0x86, CHR 0xCF, CHR 0x85, CHR 0xCF, CHR 0x82]
   \<and> filteredResources
       [(allResources ! 0)\<lparr>title :=
          [CHR 0xCE, CHR 0xA6, CHR 0xCE, CHR 0xA5, CHR 0xCE, CHR 0xA3, CHR 0xCE,
           CHR 0x99, CHR 0xCE, CHR 0x9A, CHR 0xCE, CHR 0x97]\<rparr>]
       [CHR 0xCE, CHR 0xA6, CHR 0xCE, CHR 0xA5, CHR 0xCE, CHR 0xA3] ''All''
     = []
   \<and> includes_str
       [CHR 0xCE, CHR 0xA6, CHR 0xCE, CHR 0xA5, CHR 0xCE, CHR 0xA3, CHR 0xCE, CHR 0x99,
        CHR 0xCE, CHR 0x9A, CHR 0xCE, CHR 0x97]
       [CHR 0xCE, CHR 0xA6, CHR 0xCE, CHR 0xA5, CHR 0xCE, CHR 0xA3]
   \<and> ci_substring
       [CHR 0xCE, CHR 0xA6, CHR 0xCE, CHR 0xA5, CHR 0xCE, CHR 0xA3]
       [CHR 0xCE, CHR 0xA6, CHR 0xCE, CHR 0xA5, CHR 0xCE, CHR 0xA3, CHR 0xCE, CHR 0x99,
        CHR 0xCE, CHR 0x9A, CHR 0xCE, CHR 0x97]"
proof -
  have a: "toLowerCase [CHR 0xCE, CHR 0xA6, CHR 0xCE, CHR 0xA5, CHR 0xCE, CHR 0xA3, CHR 0xCE,
          CHR 0x99, CHR 0xCE, CHR 0x9A, CHR 0xCE, CHR 0x97]
     = [CHR 0xCF, CHR 0x86, CHR 0xCF, CHR 0x85, CHR 0xCF, CHR 0x83, CHR 0xCE, CHR 0xB9,
        CHR 0xCE, CHR 0xBA, CHR 0xCE, CHR 0xB7]"
    "toLowerCase [CHR 0xCE, CHR 0xA6, CHR 0xCE, CHR 0xA5, CHR 0xCE, CHR 0xA3]
     = [CHR 0xCF, CHR 0x86, CHR 0xCF, CHR 0x85, CHR 0xCF, CHR 0x82]"
    by code_simp+
  have b: "filteredResources
       [(allResources ! 0)\<lparr>title :=
          [CHR 0xCE, CHR 0xA6, CHR 0xCE, CHR 0xA5, CHR 0xCE, CHR 0xA3, CHR 0xCE,
           CHR 0x99, CHR 0xCE, CHR 0x9A, CHR 0xCE, CHR 0x97]\<rparr>]
       [CHR 0xCE, CHR 0xA6, CHR 0xCE, CHR 0xA5, CHR 0xCE, CHR 0xA3] ''All''
     = []"
    by code_simp
  have c: "includes_str
       [CHR 0xCE, CHR 0xA6, CHR 0xCE, CHR 0xA5, CHR 0xCE, CHR 0xA3, CHR 0xCE, CHR 0x99,
        CHR 0xCE, CHR 0x9A, CHR 0xCE, CHR 0x97]
       [CHR 0xCE, CHR 0xA6, CHR 0xCE, CHR 0xA5, CHR 0xCE, CHR 0xA3]"
    by code_simp
  from c have "ci_substring
       [CHR 0xCE, CHR 0xA6, CHR 0xCE, CHR 0xA5, CHR 0xCE, CHR 0xA3]
       [CHR 0xCE, CHR 0xA6, CHR 0xCE, CHR 0xA5, CHR 0xCE, CHR 0xA3, CHR 0xCE, CHR 0x99,
        CHR 0xCE, CHR 0x9A, CHR 0xCE, CHR 0x97]"
    by (rule includes_imp_ci_substring)
  with a b c show ?thesis by simp
qed

text \<open>
  Claim C1, amended. For every list of items whose titles are ASCII, every ASCII query
  and every category, and for every list of peers and every university and year filter:
  the result of the search is a subset of the unfiltered list; every returned item
  satisfies every supplied predicate (the query is a case-insensitive substring of the
  title, the subject equals the chosen category unless the category is "All"; for peers,
  the university equals the selected one when one is selected, the year equals the
  selected year unless it is "All"); and no item that was left out satisfies all of them.
\<close>

theorem search_sound_complete_ascii:
  assumes "ascii q" and "\<forall>r \<in> set rs. ascii (title r)"
  shows "set (filteredResources rs q c) \<subseteq> set rs
   \<and> (\<forall>r \<in> set (filteredResources rs q c).
         ci_substring q (title r) \<and> (c \<noteq> ''All'' \<longrightarrow> subject r = c))
   \<and> (\<forall>r \<in> set rs - set (filteredResources rs q c).
         \<not> (ci_substring q (title r) \<and> (c \<noteq> ''All'' \<longrightarrow> subject r = c)))
   \<and> set (filteredStudents ss u f) \<subseteq> set ss
   \<and> (\<forall>s \<in> set (filteredStudents ss u f).
         (truthy u \<longrightarrow> Some (uni s) = u) \<and> (f \<noteq> ''All'' \<longrightarrow> year s = f))
   \<and> (\<forall>s \<in> set ss - set (filteredStudents ss u f).
         \<not> ((truthy u \<longrightarrow> Some (uni s) = u) \<and> (f \<noteq> ''All'' \<longrightarrow> year s = f)))"
proof -
  have tp: "matchesSearch q r \<longleftrightarrow> ci_substring q (title r)" if "r \<in> set rs" for r
    using that assms by (simp add: matchesSearch_iff)
  have "r \<in> set (filteredResources rs q c)
      \<longleftrightarrow> r \<in> set rs \<and> ci_substring q (title r) \<and> (c \<noteq> ''All'' \<longrightarrow> subject r = c)" for r
    using tp [of r] by (auto simp: filteredResources_def matchesCategory_iff)
  moreover have "s \<in> set (filteredStudents ss u f)
      \<longleftrightarrow> s \<in> set ss \<and> (truthy u \<longrightarrow> Some (uni s) = u) \<and> (f \<noteq> ''All'' \<longrightarrow> year s = f)" for s
    by (simp add: filteredStudents_def keepStudent_iff)
  ultimately show ?thesis
    by blast
qed

text \<open>The theorem at the page's data, which is ASCII: a resource that is returned and one
  that is left out, a peer that is returned and one that is left out.\<close>

theorem search_sound_complete_ascii_witness:
  "ascii ''calc'' \<and> list_all (\<lambda>r. ascii (title r)) allResources
   \<and> allResources ! 0 \<in> set (filteredResources allResources ''calc'' ''Mathematics'')
   \<and> ci_substring ''calc'' (title (allResources ! 0))
   \<and> ''Mathematics'' \<noteq> ''All'' \<and> subject (allResources ! 0) = ''Mathematics''
   \<and> allResources ! 3 \<in> set allResources - set (filteredResources allResources ''calc'' ''Mathematics'')
   \<and> \<not> ci_substring ''calc'' (title (allResources ! 3))
   \<and> mockStudents ! 1 \<in> set (filteredStudents mockStudents (Some ''ukzn'') ''1st Year'')
   \<and> truthy (Some ''ukzn'') \<and> uni (mockStudents ! 1) = ''ukzn''
   \<and> mockStudents ! 0 \<in> set mockStudents - set (filteredStudents mockStudents (Some ''ukzn'') ''1st Year'')
   \<and> year (mockStudents ! 0) \<noteq> ''1st Year''"
proof -
  have h1: "ascii ''calc''"
    by code_simp
  have h3: "list_all (\<lambda>r. ascii (title r)) allResources"
    by code_simp
  then have h2: "\<forall>r \<in> set allResources. ascii (title r)"
    by (simp only: list_all_iff)
  have m: "allResources ! 0 \<in> set (filteredResources allResources ''calc'' ''Mathematics'')"
    by code_simp
  have n: "allResources ! 3 \<in> set allResources - set (filteredResources allResources ''calc'' ''Mathematics'')"
    by code_simp
  have sm: "mockStudents ! 1 \<in> set (filteredStudents mockStudents (Some ''ukzn'') ''1st Year'')"
    by code_simp
  have sn: "mockStudents ! 0 \<in> set mockStudents - set (filteredStudents mockStudents (Some ''ukzn'') ''1st Year'')"
    by code_simp
  have sub: "subject (allResources ! 3) = ''Mathematics''" by code_simp
  have u0: "uni (mockStudents ! 0) = ''ukzn''" by code_simp
  note t = search_sound_complete_ascii [OF h1 h2, of "''Mathematics''"
      mockStudents "Some ''ukzn''" "''1st Year''"]
  from t m have "ci_substring ''calc'' (title (allResources ! 0))
      \<and> subject (allResources ! 0) = ''Mathematics''" by blast
  moreover from t n sub have "\<not> ci_substring ''calc'' (title (allResources ! 3))" by blast
  moreover from t sm have "uni (mockStudents ! 1) = ''ukzn''" by force
  moreover from t sn u0 have "year (mockStudents ! 0) \<noteq> ''1st Year''" by force
  ultimately show ?thesis using h1 h3 m n sm sn by simp
qed

text \<open>
  Claim C2, as stated, asks that a text predicate hold exactly when the query is a
  case-insensitive substring of the text field. In the chat search, for a chat named
  \<open>CE 98 CE 91 CE 9D CE 91 CE A3 CE 97 CE A3\<close> (the Greek name Thanasis in capitals) and
  the query \<open>CE 98 CE 91 CE 9D CE 91 CE A3\<close> (its first five letters), the sigma of the
  query is lowered to the final sigma and the same sigma of the name to the small sigma:
  the predicate fails and the chat is not listed, although the query is a substring of the
  name as it is.
\<close>

theorem final_sigma_text_predicate:
  "toLowerCase [CHR 0xCE, CHR 0x98, CHR 0xCE, CHR 0x91, CHR 0xCE, CHR 0x9D, CHR 0xCE, CHR 0x91,
        CHR 0xCE, CHR 0xA3, CHR 0xCE, CHR 0x97, CHR 0xCE, CHR 0xA3]
     = [CHR 0xCE, CHR 0xB8, CHR 0xCE, CHR 0xB1, CHR 0xCE, CHR 0xBD, CHR 0xCE, CHR 0xB1,
        CHR 0xCF, CHR 0x83, CHR 0xCE, CHR 0xB7, CHR 0xCF, CHR 0x82]
   \<and> toLowerCase [CHR 0xCE, CHR 0x98, CHR 0xCE, CHR 0x91, CHR 0xCE, CHR 0x9D, CHR 0xCE, CHR 0x91,
        CHR 0xCE, CHR 0xA3]
     = [CHR 0xCE, CHR 0xB8, CHR 0xCE, CHR 0xB1, CHR 0xCE, CHR 0xBD, CHR 0xCE, CHR 0xB1,
        CHR 0xCF, CHR 0x82]
   \<and> \<not> includes_str
       (toLowerCase [CHR 0xCE, CHR 0x98, CHR 0xCE, CHR 0x91, CHR 0xCE, CHR 0x9D, CHR 0xCE,
         CHR 0x91, CHR 0xCE, CHR 0xA3, CHR 0xCE, CHR 0x97, CHR 0xCE, CHR 0xA3])
       (toLowerCase [CHR 0xCE, CHR 0x98, CHR 0xCE, CHR 0x91, CHR 0xCE, CHR 0x9D, CHR 0xCE,
         CHR 0x91, CHR 0xCE, CHR 0xA3])
   \<and> filteredChats
       [(chats ! 0)\<lparr>chat.name :=
          [CHR 0xCE, CHR 0x98, CHR 0xCE, CHR 0x91, CHR 0xCE, CHR 0x9D, CHR 0xCE,
           CHR 0x91, CHR 0xCE, CHR 0xA3, CHR 0xCE, CHR 0x97, CHR 0xCE, CHR 0xA3]\<rparr>]
       [CHR 0xCE, CHR 0x98, CHR 0xCE, CHR 0x91, CHR 0xCE, CHR 0x9D, CHR 0xCE, CHR 0x91,
        CHR 0xCE, CHR 0xA3]
     = []
   \<and> includes_str
       [CHR 0xCE, CHR 0x98, CHR 0xCE, CHR 0x91, CHR 0xCE, CHR 0x9D, CHR 0xCE, CHR 0x91,
        CHR 0xCE, CHR 0xA3, CHR 0xCE, CHR 0x97, CHR 0xCE, CHR 0xA3]
       [CHR 0xCE, CHR 0x98, CHR 0xCE, CHR 0x91, CHR 0xCE, CHR 0x9D, CHR 0xCE, CHR 0x91,
        CHR 0xCE, CHR 0xA3]
   \<and> ci_substring
       [CHR 0xCE, CHR 0x98, CHR 0xCE, CHR 0x91, CHR 0xCE, CHR 0x9D, CHR 0xCE, CHR 0x91,
        CHR 0xCE, CHR 0xA3]
       [CHR 0xCE, CHR 0x98, CHR 0xCE, CHR 0x91, CHR 0xCE, CHR 0x9D, CHR 0xCE, CHR 0x91,
        CHR 0xCE, CHR 0xA3, CHR 0xCE, CHR 0x97, CHR 0xCE, CHR 0xA3]"
proof -
  have a: "toLowerCase [CHR 0xCE, CHR 0x98, CHR 0xCE, CHR 0x91, CHR 0xCE, CHR 0x9D, CHR 0xCE,
          CHR 0x91, CHR 0xCE, CHR 0xA3, CHR 0xCE, CHR 0x97, CHR 0xCE, CHR 0xA3]
     = [CHR 0xCE, CHR 0xB8, CHR 0xCE, CHR 0xB1, CHR 0xCE, CHR 0xBD, CHR 0xCE, CHR 0xB1,
        CHR 0xCF, CHR 0x83, CHR 0xCE, CHR 0xB7, CHR 0xCF, CHR 0x82]"
    "toLowerCase [CHR 0xCE, CHR 0x98, CHR 0xCE, CHR 0x91, CHR 0xCE, CHR 0x9D, CHR 0xCE,
          CHR 0x91, CHR 0xCE, CHR 0xA3]
     = [CHR 0xCE, CHR 0xB8, CHR 0xCE, CHR 0xB1, CHR 0xCE, CHR 0xBD, CHR 0xCE, CHR 0xB1,
        CHR 0xCF, CHR 0x82]"
    by code_simp+
  have b: "\<not> includes_str
       (toLowerCase [CHR 0xCE, CHR 0x98, CHR 0xCE, CHR 0x91, CHR 0xCE, CHR 0x9D, CHR 0xCE,
         CHR 0x91, CHR 0xCE, CHR 0xA3, CHR 0xCE, CHR 0x97, CHR 0xCE, CHR 0xA3])
       (toLowerCase [CHR 0xCE, CHR 0x98, CHR 0xCE, CHR 0x91, CHR 0xCE, CHR 0x9D, CHR 0xCE,
         CHR 0x91, CHR 0xCE, CHR 0xA3])"
    by code_simp
  have c: "filteredChats
       [(chats ! 0)\<lparr>chat.name :=
          [CHR 0xCE, CHR 0x98, CHR 0xCE, CHR 0x91, CHR 0xCE, CHR 0x9D, CHR 0xCE,
           CHR 0x91, CHR 0xCE, CHR 0xA3, CHR 0xCE, CHR 0x97, CHR 0xCE, CHR 0xA3]\<rparr>]
       [CHR 0xCE, CHR 0x98, CHR 0xCE, CHR 0x91, CHR 0xCE, CHR 0x9D, CHR 0xCE, CHR 0x91,
        CHR 0xCE, CHR 0xA3]
     = []"
    by code_simp
  have d: "includes_str
       [CHR 0xCE, CHR 0x98, CHR 0xCE, CHR 0x91, CHR 0xCE, CHR 0x9D, CHR 0xCE, CHR 0x91,
        CHR 0xCE, CHR 0xA3, CHR 0xCE, CHR 0x97, CHR 0xCE, CHR 0xA3]
       [CHR 0xCE, CHR 0x98, CHR 0xCE, CHR 0x91, CHR 0xCE, CHR 0x9D, CHR 0xCE, CHR 0x91,
        CHR 0xCE, CHR 0xA3]"
    by code_simp
  from d have "ci_substring
       [CHR 0xCE, CHR 0x98, CHR 0xCE, CHR 0x91, CHR 0xCE, CHR 0x9D, CHR 0xCE, CHR 0x91,
        CHR 0xCE, CHR 0xA3]
       [CHR 0xCE, CHR 0x98, CHR 0xCE, CHR 0x91, CHR 0xCE, CHR 0x9D, CHR 0xCE, CHR 0x91,
        CHR 0xCE, CHR 0xA3, CHR 0xCE, CHR 0x97, CHR 0xCE, CHR 0xA3]"
    by (rule includes_imp_ci_substring)
  with a b c d show ?thesis by simp
qed

text \<open>
  Claim C2, amended. The supplied predicates combine conjunctively: an item is kept only
  if it passes all of them. For an ASCII query and an ASCII text field (the title of a
  resource, the name of a chat) the text predicate holds exactly when the query is a
  case-insensitive substring of the field; an attribute predicate holds exactly when the
  attribute equals the filter value (subject, university, year); and a filter whose value
  is absent (the category or year "All", no university or an empty one, the empty query)
  matches every item.
\<close>

theorem filter_predicate_semantics_ascii:
  "(r \<in> set (filteredResources rs q c)
      \<longleftrightarrow> r \<in> set rs \<and> matchesSearch q r \<and> matchesCategory c r)
   \<and> (ascii q \<and> ascii (title r) \<longrightarrow> (matchesSearch q r \<longleftrightarrow> ci_substring q (title r)))
   \<and> (c \<noteq> ''All'' \<longrightarrow> (matchesCategory c r \<longleftrightarrow> subject r = c))
   \<and> matchesCategory ''All'' r
   \<and> matchesSearch [] r
   \<and> (ascii q \<and> ascii (chat.name ch) \<longrightarrow>
        (ch \<in> set (filteredChats cs q) \<longleftrightarrow> ch \<in> set cs \<and> ci_substring q (chat.name ch)))
   \<and> filteredChats cs [] = cs
   \<and> (s \<in> set (filteredStudents ss u f) \<longleftrightarrow> s \<in> set ss \<and> keepStudent u f s)
   \<and> (keepStudent u f s
        \<longleftrightarrow> (truthy u \<longrightarrow> Some (uni s) = u) \<and> (f \<noteq> ''All'' \<longrightarrow> year s = f))
   \<and> keepStudent None ''All'' s
   \<and> keepStudent (Some []) ''All'' s"
proof -
  have "matchesSearch [] r"
    by (simp add: matchesSearch_def toLowerCase_empty includes_str_empty)
  moreover have "filteredChats cs [] = cs"
    by (simp add: filteredChats_def toLowerCase_empty includes_str_empty)
  moreover have "ascii q \<and> ascii (chat.name ch) \<longrightarrow>
      (ch \<in> set (filteredChats cs q) \<longleftrightarrow> ch \<in> set cs \<and> ci_substring q (chat.name ch))"
    by (simp add: filteredChats_def includes_lower_iff_ci_substring)
  moreover have "r \<in> set (filteredResources rs q c)
      \<longleftrightarrow> r \<in> set rs \<and> matchesSearch q r \<and> matchesCategory c r"
    by (simp add: filteredResources_def)
  moreover have "s \<in> set (filteredStudents ss u f) \<longleftrightarrow> s \<in> set ss \<and> keepStudent u f s"
    by (simp add: filteredStudents_def)
  moreover have "keepStudent None ''All'' s" "keepStudent (Some []) ''All'' s"
    by (simp_all add: keepStudent_iff)
  ultimately show ?thesis
    using matchesSearch_iff [of q r] matchesCategory_iff [of c r] matchesCategory_iff [of "''All''" r]
      keepStudent_iff [of u f s]
    by blast
qed

text \<open>The theorem at the page's data: an attribute filter that holds and one that fails, a
  query in capitals found in a title and in a chat name, a peer kept and the same peer
  rejected by another year.\<close>

theorem filter_predicate_semantics_ascii_witness:
  "''Physics'' \<noteq> ''All''
   \<and> matchesCategory ''Physics'' (allResources ! 2)
   \<and> subject (allResources ! 2) = ''Physics''
   \<and> \<not> matchesCategory ''Physics'' (allResources ! 0)
   \<and> ascii ''CALC'' \<and> ascii (title (allResources ! 0))
   \<and> ci_substring ''CALC'' (title (allResources ! 0))
   \<and> ascii ''NOMSA'' \<and> ascii (chat.name (chats ! 0))
   \<and> ci_substring ''NOMSA'' (chat.name (chats ! 0))
   \<and> chats ! 0 \<in> set (filteredChats chats ''NOMSA'')
   \<and> truthy (Some ''uct'') \<and> ''2nd Year'' \<noteq> ''All''
   \<and> keepStudent (Some ''uct'') ''2nd Year'' (mockStudents ! 2)
   \<and> \<not> keepStudent (Some ''uct'') ''1st Year'' (mockStudents ! 2)"
proof -
  note a = filter_predicate_semantics_ascii [where r = "allResources ! 2" and c = "''Physics''"
      and s = "mockStudents ! 2" and u = "Some ''uct''" and f = "''2nd Year''"]
  note b = filter_predicate_semantics_ascii [where r = "allResources ! 0" and q = "''CALC''"
      and c = "''Physics''" and s = "mockStudents ! 2" and u = "Some ''uct''"
      and f = "''1st Year''"]
  note c = filter_predicate_semantics_ascii [where ch = "chats ! 0" and cs = chats
      and q = "''NOMSA''"]
  have s2: "subject (allResources ! 2) = ''Physics''" "subject (allResources ! 0) \<noteq> ''Physics''"
    by code_simp+
  have asc: "ascii ''CALC''" "ascii (title (allResources ! 0))" "ascii ''NOMSA''"
    "ascii (chat.name (chats ! 0))"
    by code_simp+
  have ms: "matchesSearch ''CALC'' (allResources ! 0)" by code_simp
  have ch: "chats ! 0 \<in> set (filteredChats chats ''NOMSA'')" by code_simp
  have st: "uni (mockStudents ! 2) = ''uct''" "year (mockStudents ! 2) = ''2nd Year''"
    by code_simp+
  have "matchesCategory ''Physics'' (allResources ! 2)" using a s2 by simp
  moreover have "\<not> matchesCategory ''Physics'' (allResources ! 0)" using b s2 by simp
  moreover have "ci_substring ''CALC'' (title (allResources ! 0))" using b ms asc by blast
  moreover have "ci_substring ''NOMSA'' (chat.name (chats ! 0))" using c ch asc by blast
  moreover have "keepStudent (Some ''uct'') ''2nd Year'' (mockStudents ! 2)" using a st by simp
  moreover have "\<not> keepStudent (Some ''uct'') ''1st Year'' (mockStudents ! 2)" using b st by simp
  ultimately show ?thesis using s2 ch asc by simp
qed

text \<open>The table of the Greek letters: the twenty-four capital letters, set apart by
  spaces, and their small forms.\<close>

lemma greek_capitals_lowered:
  "toLowerCase
     [CHR 0xCE, CHR 0x91, CHR 0x20, CHR 0xCE, CHR 0x92, CHR 0x20, CHR 0xCE, CHR 0x93,
      CHR 0x20, CHR 0xCE, CHR 0x94, CHR 0x20, CHR 0xCE, CHR 0x95, CHR 0x20, CHR 0xCE,
      CHR 0x96, CHR 0x20, CHR 0xCE, CHR 0x97, CHR 0x20, CHR 0xCE, CHR 0x98, CHR 0x20,
      CHR 0xCE, CHR 0x99, CHR 0x20, CHR 0xCE, CHR 0x9A, CHR 0x20, CHR 0xCE, CHR 0x9B,
      CHR 0x20, CHR 0xCE, CHR 0x9C, CHR 0x20, CHR 0xCE, CHR 0x9D, CHR 0x20, CHR 0xCE,
      CHR 0x9E, CHR 0x20, CHR 0xCE, CHR 0x9F, CHR 0x20, CHR 0xCE, CHR 0xA0, CHR 0x20,
      CHR 0xCE, CHR 0xA1, CHR 0x20, CHR 0xCE, CHR 0xA3, CHR 0x20, CHR 0xCE, CHR 0xA4,
      CHR 0x20, CHR 0xCE, CHR 0xA5, CHR 0x20, CHR 0xCE, CHR 0xA6, CHR 0x20, CHR 0xCE,
      CHR 0xA7, CHR 0x20, CHR 0xCE, CHR 0xA8, CHR 0x20, CHR 0xCE, CHR 0xA9]
   = [CHR 0xCE, CHR 0xB1, CHR 0x20, CHR 0xCE, CHR 0xB2, CHR 0x20, CHR 0xCE, CHR 0xB3,
      CHR 0x20, CHR 0xCE, CHR 0xB4, CHR 0x20, CHR 0xCE, CHR 0xB5, CHR 0x20, CHR 0xCE,
      CHR 0xB6, CHR 0x20, CHR 0xCE, CHR 0xB7, CHR 0x20, CHR 0xCE, CHR 0xB8, CHR 0x20,
      CHR 0xCE, CHR 0xB9, CHR 0x20, CHR 0xCE, CHR 0xBA, CHR 0x20, CHR 0xCE, CHR 0xBB,
      CHR 0x20, CHR 0xCE, CHR 0xBC, CHR 0x20, CHR 0xCE, CHR 0xBD, CHR 0x20, CHR 0xCE,
      CHR 0xBE, CHR 0x20, CHR 0xCE, CHR 0xBF, CHR 0x20, CHR 0xCF, CHR 0x80, CHR 0x20,
      CHR 0xCF, CHR 0x81, CHR 0x20, CHR 0xCF, CHR 0x83, CHR 0x20, CHR 0xCF, CHR 0x84,
      CHR 0x20, CHR 0xCF, CHR 0x85, CHR 0x20, CHR 0xCF, CHR 0x86, CHR 0x20, CHR 0xCF,
      CHR 0x87, CHR 0x20, CHR 0xCF, CHR 0x88, CHR 0x20, CHR 0xCF, CHR 0x89]"
  by code_simp

text \<open>The Kelvin sign is lowered to the letter k: as a query it finds Khotso.\<close>

lemma kelvin_query_finds_khotso: "filteredChats chats kelvin_sign = [chats ! 2]"
  by code_simp

text \<open>
  Claim C3. The items that the filter returns appear in the same relative order as in the
  input list: the result is a subsequence of the input. In particular the search with the
  empty query and no filter returns every item of the input in its original order.
\<close>

theorem filter_keeps_order:
  "subseq (filteredResources rs q c) rs
   \<and> filteredResources rs [] ''All'' = rs
   \<and> subseq (filteredChats cs q) cs
   \<and> filteredChats cs [] = cs
   \<and> subseq (filteredStudents ss u f) ss
   \<and> filteredStudents ss None ''All'' = ss"
  by (simp add: filteredResources_def filteredChats_def filteredStudents_def
      matchesSearch_def matchesCategory_def keepStudent_def toLowerCase_empty includes_str_empty)

section \<open>Peer search\<close>

text \<open>
  Claim C4, as stated, asks that the peers be returned in ascending order of their names.
  The page filters \<open>mockStudents\<close> and never sorts: with no university and the year "All"
  it returns Sipho, Thando, Kyle, Lerato, Jason, which is not ascending.
\<close>

theorem peer_search_unsorted:
  "\<not> sorted (map student.name (filteredStudents mockStudents None ''All''))"
  by code_simp

text \<open>
  Claim C4, amended. The peer filter takes no text query and no course filter. It keeps
  exactly the peers whose university equals the selected one, when one is selected, and
  whose year equals the selected year, unless that is "All"; with nothing selected it
  returns all peers; the result is in the order of the input list; and the names and the
  courses of the peers play no part in it.
\<close>

theorem peer_filter_by_uni_and_year:
  "(s \<in> set (filteredStudents ss u f)
      \<longleftrightarrow> s \<in> set ss \<and> (truthy u \<longrightarrow> Some (uni s) = u) \<and> (f \<noteq> ''All'' \<longrightarrow> year s = f))
   \<and> filteredStudents ss None ''All'' = ss
   \<and> subseq (filteredStudents ss u f) ss
   \<and> filteredStudents (map (\<lambda>s. s\<lparr>student.name := n s, course := k s\<rparr>) ss) u f
       = map (\<lambda>s. s\<lparr>student.name := n s, course := k s\<rparr>) (filteredStudents ss u f)"
proof -
  have "filteredStudents (map (\<lambda>s. s\<lparr>student.name := n s, course := k s\<rparr>) ss) u f
       = map (\<lambda>s. s\<lparr>student.name := n s, course := k s\<rparr>) (filteredStudents ss u f)"
  proof -
    have "keepStudent u f \<circ> (\<lambda>s. s\<lparr>student.name := n s, course := k s\<rparr>) = keepStudent u f"
      by (rule ext) (simp add: keepStudent_def)
    then show ?thesis
      by (simp add: filteredStudents_def filter_map)
  qed
  then show ?thesis
    by (simp add: filteredStudents_def keepStudent_iff)
qed

text \<open>The amended claim at the page's data: of the two students of UKZN, the filter for
  the third year keeps Sipho and drops Thando.\<close>

theorem peer_filter_by_uni_and_year_witness:
  "truthy (Some ''ukzn'') \<and> ''3rd Year'' \<noteq> ''All''
   \<and> mockStudents ! 0 \<in> set (filteredStudents mockStudents (Some ''ukzn'') ''3rd Year'')
   \<and> mockStudents ! 1 \<notin> set (filteredStudents mockStudents (Some ''ukzn'') ''3rd Year'')
   \<and> filteredStudents mockStudents None ''All'' = mockStudents"
proof -
  note t = peer_filter_by_uni_and_year [of _ mockStudents "Some ''ukzn''" "''3rd Year''"]
  have a: "mockStudents ! 0 \<in> set mockStudents" "uni (mockStudents ! 0) = ''ukzn''"
    "year (mockStudents ! 0) = ''3rd Year''" "year (mockStudents ! 1) \<noteq> ''3rd Year''"
    by code_simp+
  have "mockStudents ! 0 \<in> set (filteredStudents mockStudents (Some ''ukzn'') ''3rd Year'')"
    using t [of "mockStudents ! 0"] a by simp
  moreover have "mockStudents ! 1 \<notin> set (filteredStudents mockStudents (Some ''ukzn'') ''3rd Year'')"
    using t [of "mockStudents ! 1"] a by simp
  ultimately show ?thesis using t by simp
qed

section \<open>The upload form\<close>

text \<open>
  Claim C6, as stated, asks that an upload fail with an oversize error whenever the file
  is larger than 10 MB. On the code, a file of 20 MB is accepted by the file input, the
  submit button is enabled, and the submission ends as every other one does, with the
  spinner off and the demo alert, and with no error.
\<close>

theorem oversize_upload_accepted:
  "file_u (handleFileChange
       (Some [\<lparr>file_name = ''notes.pdf'', file_size = 20 * 1024 * 1024,
               file_type = ''application/pdf''\<rparr>])
       \<lparr>file_u = None, isUploading = False, upload_alerts = []\<rparr>)
     = Some \<lparr>file_name = ''notes.pdf'', file_size = 20 * 1024 * 1024,
             file_type = ''application/pdf''\<rparr>
   \<and> (20 * 1024 * 1024 :: nat) > 10 * 1024 * 1024
   \<and> \<not> submitDisabled (handleFileChange
       (Some [\<lparr>file_name = ''notes.pdf'', file_size = 20 * 1024 * 1024,
               file_type = ''application/pdf''\<rparr>])
       \<lparr>file_u = None, isUploading = False, upload_alerts = []\<rparr>)
   \<and> submitAndWait (handleFileChange
       (Some [\<lparr>file_name = ''notes.pdf'', file_size = 20 * 1024 * 1024,
               file_type = ''application/pdf''\<rparr>])
       \<lparr>file_u = None, isUploading = False, upload_alerts = []\<rparr>)
     = \<lparr>file_u = Some \<lparr>file_name = ''notes.pdf'', file_size = 20 * 1024 * 1024,
                       file_type = ''application/pdf''\<rparr>,
        isUploading = False, upload_alerts = [UploadDemoAlert]\<rparr>"
  by (simp add: handleFileChange_def submitDisabled_def submitAndWait_def handleSubmit_def
      uploadTimeout_def)

text \<open>
  Claim C6, amended. The upload form is a simulation and checks no size: the limit of
  10 MB appears only in the hint of the drop zone. For every file, whatever its size, the
  file input accepts it; the submit button is disabled exactly while no file is chosen or
  an upload is running; a submission ends, after the timer, with the spinner off and the
  demo alert added and nothing else changed; and this outcome is the same for every
  file. No submission, under the limit or over it, yields an oversize error.
\<close>

theorem upload_has_no_size_check:
  "file_u (handleFileChange (Some (f # fs)) st) = Some f
   \<and> submitDisabled st = (file_u st = None \<or> isUploading st)
   \<and> submitAndWait st
       = st\<lparr>isUploading := False, upload_alerts := upload_alerts st @ [UploadDemoAlert]\<rparr>
   \<and> isUploading (submitAndWait (st\<lparr>file_u := Some f\<rparr>))
       = isUploading (submitAndWait (st\<lparr>file_u := Some g\<rparr>))
   \<and> upload_alerts (submitAndWait (st\<lparr>file_u := Some f\<rparr>))
       = upload_alerts (submitAndWait (st\<lparr>file_u := Some g\<rparr>))"
  by (simp add: handleFileChange_def submitDisabled_def submitAndWait_def handleSubmit_def
      uploadTimeout_def)

text \<open>The amended claim for a file of one kilobyte and a file of twenty megabytes.\<close>

theorem upload_has_no_size_check_witness:
  "upload_alerts (submitAndWait
       \<lparr>file_u = Some \<lparr>file_name = ''a.pdf'', file_size = 1024, file_type = ''application/pdf''\<rparr>,
        isUploading = False, upload_alerts = []\<rparr>)
     = [UploadDemoAlert]
   \<and> upload_alerts (submitAndWait
       \<lparr>file_u = Some \<lparr>file_name = ''b.pdf'', file_size = 20 * 1024 * 1024,
                       file_type = ''application/pdf''\<rparr>,
        isUploading = False, upload_alerts = []\<rparr>)
     = [UploadDemoAlert]"
  using upload_has_no_size_check
    [of "\<lparr>file_name = ''a.pdf'', file_size = 1024, file_type = ''application/pdf''\<rparr>" "[]"
      "\<lparr>file_u = None, isUploading = False, upload_alerts = []\<rparr>"
      "\<lparr>file_name = ''b.pdf'', file_size = 20 * 1024 * 1024, file_type = ''application/pdf''\<rparr>"]
    upload_has_no_size_check
    [of "\<lparr>file_name = ''a.pdf'', file_size = 1024, file_type = ''application/pdf''\<rparr>" "[]"
      "\<lparr>file_u = Some \<lparr>file_name = ''a.pdf'', file_size = 1024, file_type = ''application/pdf''\<rparr>,
        isUploading = False, upload_alerts = []\<rparr>"
      "\<lparr>file_name = ''b.pdf'', file_size = 20 * 1024 * 1024, file_type = ''application/pdf''\<rparr>"]
  by simp

section \<open>Deleting an upload\<close>

lemma count_list_filter:
  "count_list (filter P xs) x = (if P x then count_list xs x else 0)"
  by (induction xs) auto

lemma filter_id_absent: "i \<notin> id_u ` set us \<Longrightarrow> filter (\<lambda>item. id_u item \<noteq> i) us = us"
  by (induction us) auto

text \<open>
  Claim C7. An operation that fails leaves the state exactly as it was: a delete whose
  confirmation is declined returns the page state unchanged (the list of uploads, the
  deleting id, the timers), and a file selection that delivers no file leaves the upload
  form unchanged.
\<close>

theorem failed_operation_leaves_state:
  "(\<not> confirmed \<longrightarrow> handleDelete confirmed i st = st)
   \<and> (files = None \<or> files = Some [] \<longrightarrow> handleFileChange files up = up)"
  by (auto simp: handleDelete_def handleFileChange_def)

text \<open>The theorem at the initial dashboard, with the confirmation declined, and at the
  empty upload form.\<close>

theorem failed_operation_leaves_state_witness:
  "handleDelete False 2 initialUploadsPage = initialUploadsPage
   \<and> uploads (handleDelete False 2 initialUploadsPage) = initialUploads
   \<and> handleFileChange None \<lparr>file_u = None, isUploading = False, upload_alerts = []\<rparr>
       = \<lparr>file_u = None, isUploading = False, upload_alerts = []\<rparr>"
  using failed_operation_leaves_state [of False 2 initialUploadsPage None
      "\<lparr>file_u = None, isUploading = False, upload_alerts = []\<rparr>"]
  by (simp add: initialUploadsPage_def)

text \<open>
  Claim C10. A confirmed delete produces exactly the previous list with every entry whose
  id equals the deleted id removed: no entry with that id remains, every remaining entry
  is an entry of the previous list with all its fields, every other entry occurs as often
  as before, the relative order is kept, and deleting an id that is not in the list
  leaves the list unchanged. The handler itself does not touch the list; the timer's
  callback does, from whatever list is current when it runs.
\<close>

theorem delete_frame:
  "uploads (confirmedDelete i st) = filter (\<lambda>item. id_u item \<noteq> i) (uploads st)
   \<and> uploads (deleteTimeout i st) = filter (\<lambda>item. id_u item \<noteq> i) (uploads st)
   \<and> uploads (handleDelete True i st) = uploads st
   \<and> (\<forall>item \<in> set (uploads (confirmedDelete i st)). id_u item \<noteq> i \<and> item \<in> set (uploads st))
   \<and> (\<forall>item. id_u item \<noteq> i \<longrightarrow>
         count_list (uploads (confirmedDelete i st)) item = count_list (uploads st) item)
   \<and> subseq (uploads (confirmedDelete i st)) (uploads st)
   \<and> (i \<notin> id_u ` set (uploads st) \<longrightarrow> uploads (confirmedDelete i st) = uploads st)"
  by (simp add: confirmedDelete_def deleteTimeout_def handleDelete_def count_list_filter
      filter_id_absent)

text \<open>The theorem at the initial dashboard: deleting the id 2 leaves the first and the
  third upload, deleting the absent id 7 leaves all three.\<close>

theorem delete_frame_witness:
  "uploads (confirmedDelete 2 initialUploadsPage) = [initialUploads ! 0, initialUploads ! 2]
   \<and> initialUploads ! 0 \<in> set (uploads (confirmedDelete 2 initialUploadsPage))
   \<and> id_u (initialUploads ! 0) \<noteq> 2
   \<and> count_list (uploads (confirmedDelete 2 initialUploadsPage)) (initialUploads ! 0)
       = count_list (uploads initialUploadsPage) (initialUploads ! 0)
   \<and> 7 \<notin> id_u ` set (uploads initialUploadsPage)
   \<and> uploads (confirmedDelete 7 initialUploadsPage) = initialUploads"
proof -
  note t2 = delete_frame [of 2 initialUploadsPage]
  note t7 = delete_frame [of 7 initialUploadsPage]
  have a: "7 \<notin> id_u ` set (uploads initialUploadsPage)"
    by code_simp
  have b: "uploads initialUploadsPage = initialUploads"
    by (simp add: initialUploadsPage_def)
  have c: "filter (\<lambda>item. id_u item \<noteq> 2) (uploads initialUploadsPage)
           = [initialUploads ! 0, initialUploads ! 2]"
    by code_simp
  from t2 c have r: "uploads (confirmedDelete 2 initialUploadsPage)
           = [initialUploads ! 0, initialUploads ! 2]"
    by (simp only:)
  then have m: "initialUploads ! 0 \<in> set (uploads (confirmedDelete 2 initialUploadsPage))"
    by simp
  with t2 have d: "id_u (initialUploads ! 0) \<noteq> 2"
    by blast
  with t2 have e: "count_list (uploads (confirmedDelete 2 initialUploadsPage)) (initialUploads ! 0)
       = count_list (uploads initialUploadsPage) (initialUploads ! 0)"
    by blast
  from t7 a have "uploads (confirmedDelete 7 initialUploadsPage) = uploads initialUploadsPage"
    by blast
  with b have f: "uploads (confirmedDelete 7 initialUploadsPage) = initialUploads"
    by (simp only:)
  from r m d e a f show ?thesis
    by (simp only: simp_thms)
qed

section \<open>Unknown ids on the detail pages\<close>

text \<open>The conversion of an ASCII id leaves no capital letter, so of the names that an
  object literal inherits only \<^verbatim>\<open>constructor\<close> and \<^verbatim>\<open>__proto__\<close> can be the lowered
  id.\<close>

lemma toLowerCase_no_upper:
  "ascii i \<Longrightarrow> toLowerCase i = k \<Longrightarrow> list_all (\<lambda>c. \<not> (CHR ''A'' \<le> c \<and> c \<le> CHR ''Z'')) k"
  using toLowerCase_char_not_upper by (auto simp: toLowerCase_ascii list_all_iff)

lemma prototype_keys_with_capitals:
  "list_all (\<lambda>k. k = ''constructor'' \<or> k = ''__proto__''
                \<or> \<not> list_all (\<lambda>c. \<not> (CHR ''A'' \<le> c \<and> c \<le> CHR ''Z'')) k)
     objectPrototypeKeys"
  by code_simp

lemma lowered_prototype_key:
  assumes "ascii i"
  shows "toLowerCase i \<in> set objectPrototypeKeys
     \<longleftrightarrow> toLowerCase i = ''constructor'' \<or> toLowerCase i = ''__proto__''"
proof
  assume "toLowerCase i \<in> set objectPrototypeKeys"
  with prototype_keys_with_capitals
  have "toLowerCase i = ''constructor'' \<or> toLowerCase i = ''__proto__''
        \<or> \<not> list_all (\<lambda>c. \<not> (CHR ''A'' \<le> c \<and> c \<le> CHR ''Z'')) (toLowerCase i)"
    unfolding list_all_iff by blast
  with toLowerCase_no_upper [OF assms, of "toLowerCase i"]
  show "toLowerCase i = ''constructor'' \<or> toLowerCase i = ''__proto__''"
    by blast
next
  assume "toLowerCase i = ''constructor'' \<or> toLowerCase i = ''__proto__''"
  then show "toLowerCase i \<in> set objectPrototypeKeys"
    by (auto simp: objectPrototypeKeys_def)
qed

text \<open>For every ASCII id that, lowered, is neither a key of the mock databases nor one of
  these two names, the pages fall back as their comments say: Nomsa's metadata with no
  message bubble, and Nomsa's profile.\<close>

lemma unknown_id_fallback:
  assumes "ascii i"
    and "chatId i \<notin> {''nomsa'', ''khotso'', ''studygroup''}"
    and "chatId i \<notin> {''constructor'', ''__proto__''}"
  shows "chatUser i = Own nomsa_user \<and> messageBubbles i = Inr []
    \<and> chatProfile i = Own nomsa_profile \<and> profileList i = Inr [''Study Group A'', ''Calc 101'']"
proof -
  from assms(1,3) have p: "toLowerCase i \<notin> set objectPrototypeKeys"
    by (simp add: lowered_prototype_key chatId_def)
  from assms(2) have "map_of chatData (toLowerCase i) = None"
    "map_of messagesDB (toLowerCase i) = None" "map_of profiles (toLowerCase i) = None"
    by (simp_all add: chatId_def chatData_def messagesDB_def profiles_def)
  with p show ?thesis
    by (simp add: chatUser_def chatMessages_def messageBubbles_def chatProfile_def chatId_def
        profileList_def getProp_def chatData_def profiles_def nomsa_profile_def)
qed

text \<open>
  Claim C9 asks that for every id that is not in the mock databases the lookup never fail
  and fall back to Nomsa. For the id \<^verbatim>\<open>constructor\<close>, which is no key of the databases,
  each lookup finds the member that the object literal inherits, which is truthy, so no
  fallback takes place: the user is not Nomsa's metadata, the messages are not an array
  and rendering them raises a \<^verbatim>\<open>TypeError\<close>, and the profile is not Nomsa's profile and
  rendering it raises a \<^verbatim>\<open>TypeError\<close> as well.
\<close>

theorem unknown_id_constructor:
  "map_of chatData (chatId ''constructor'') = None
   \<and> map_of messagesDB (chatId ''constructor'') = None
   \<and> map_of profiles (toLowerCase ''constructor'') = None
   \<and> chatUser ''constructor'' = Inherited ''constructor''
   \<and> chatMessages ''constructor'' = Inherited ''constructor''
   \<and> messageBubbles ''constructor'' = Inl TypeError
   \<and> chatProfile ''constructor'' = Inherited ''constructor''
   \<and> profileList ''constructor'' = Inl TypeError"
  by code_simp

end
